theory Spec2Isabelle
  imports Main
begin

section \<open>Values, fields and the logging backend\<close>

text \<open>
  The package \<open>logger\<close> is a thin facade over the logging library go.uber.org/zap. The
  repository holds two variants of it: the flag-driven one of \<open>src/recover.go\<close>
  (\<open>PanicLogger\<close>, then \<open>Init(ctx, enableLogLevelEndpoint, developmentMode)\<close> and the
  configurable correlation keys) and the context-driven one of \<open>src/logger.go\<close>
  (\<open>Init(ctx)\<close>, with the correlation key fixed). Definitions taken from the second carry
  the suffix \<open>_ctx\<close>; the accessors \<open>Logger\<close> and \<open>SugaredLogger\<close> are literally the
  same in both and are modelled once.

  A Go value of type \<open>interface{}\<close> is a value together with its dynamic type. The
  constructors below are the dynamic types the package meets: the nil interface, strings,
  booleans, integers, string slices, and a strongly typed \<open>zap.Field\<close> (key and value).
\<close>

datatype any =
    ANil
  | AString string
  | ABool bool
  | AInt int
  | AStrings "string list"
  | AField string any

type_synonym Field = "string \<times> any"

text \<open>\<open>context.Context\<close>: \<open>ctx.Value(key)\<close> is the nil interface for a key that is absent.\<close>

type_synonym Context = "string \<Rightarrow> any"

datatype Level =
  DebugLevel | InfoLevel | WarnLevel | ErrorLevel | DPanicLevel | PanicLevel | FatalLevel

fun level_rank :: "Level \<Rightarrow> int" where
  "level_rank DebugLevel = -1"
| "level_rank InfoLevel = 0"
| "level_rank WarnLevel = 1"
| "level_rank ErrorLevel = 2"
| "level_rank DPanicLevel = 3"
| "level_rank PanicLevel = 4"
| "level_rank FatalLevel = 5"

datatype LevelEncoder = LowercaseLevelEncoder
datatype TimeEncoder = RFC3339TimeEncoder
datatype DurationEncoder = MillisDurationEncoder
datatype CallerEncoder = FullCallerEncoder | ShortCallerEncoder

text \<open>\<open>zapcore.OmitKey\<close> is the empty string: a key set to it is left out of the record.\<close>

definition OmitKey :: string where
  "OmitKey = []"

definition DefaultLineEnding :: string where
  "DefaultLineEnding = [CHR 0x0A]"

record EncoderConfig =
  TimeKey :: string
  LevelKey :: string
  NameKey :: string
  CallerKey :: string
  FunctionKey :: string
  MessageKey :: string
  StacktraceKey :: string
  LineEnding :: string
  EncodeLevel :: LevelEncoder
  EncodeTime :: TimeEncoder
  EncodeDuration :: DurationEncoder
  EncodeCaller :: CallerEncoder

record SamplingConfig =
  Initial :: int
  Thereafter :: int

text \<open>
  \<open>zap.Config\<close>. \<open>Level\<close> is the atomic level cell created by \<open>zap.NewAtomicLevelAt\<close>; the
  model keeps the value it is created with (the HTTP handler that may change it later runs
  concurrently and is outside the model). \<open>Sampling\<close> is a pointer: \<open>None\<close> is \<open>nil\<close>.
\<close>

record Config =
  Level :: Level
  Development :: bool
  DisableCaller :: bool
  DisableStacktrace :: bool
  Sampling :: "SamplingConfig option"
  Encoding :: string
  EncoderConfig :: EncoderConfig
  OutputPaths :: "string list"
  ErrorOutputPaths :: "string list"
  InitialFields :: "Field list"

text \<open>
  Modelled from the spec: the backend logger \<open>zap.Logger\<close> (a third-party type, not under
  src/) is, in the words of the data model, an immutable snapshot of backend state plus
  attached fields: the configuration it was built from and the context fields added so far,
  in the order they were added.
\<close>

record zap_Logger =
  config :: Config
  attached :: "Field list"

datatype zap_SugaredLogger = zap_SugaredLogger (base: zap_Logger)

text \<open>\<open>CLogger\<close> and \<open>CSugaredLogger\<close> embed the backend types and add no field.\<close>

datatype CLogger = CLogger (zl: zap_Logger)
datatype CSugaredLogger = CSugaredLogger (zs: zap_SugaredLogger)

text \<open>One record as the backend writes it: severity, message, context fields then call fields.\<close>

record Entry =
  severity :: Level
  message :: string
  written :: "Field list"

text \<open>A line on a sink is a log record or the text of an error of the logger itself.\<close>

datatype Line = Record Entry | Internal string

text \<open>A background HTTP listener started by \<open>Init\<close>: address, route, and the level it serves.\<close>

record Listener =
  addr :: string
  route :: string
  serves :: Level

section \<open>Process state and outcomes\<close>

text \<open>
  The package variables \<open>logger\<close> (a pointer, \<open>None\<close> for nil), \<open>correlationIdContextKey\<close> and
  \<open>correlationIdFieldKey\<close>, followed by what the process has done so far: the records written
  to standard output and to standard error, the writes to any other sink (path and record),
  the backends constructed, and the listeners spawned. \<open>sampler\<close> holds the counters of
  the backend's sampler: severity and message of every record it has been asked about in
  the current interval.
\<close>

record state =
  logger :: "CLogger option"
  correlationIdContextKey :: string
  correlationIdFieldKey :: string
  stdout :: "Line list"
  stderr :: "Line list"
  files :: "(string \<times> Line) list"
  built :: "Config list"
  listeners :: "Listener list"
  sampler :: "(Level \<times> string) list"

text \<open>A call returns a value, panics with a message, or ends the process with an exit code.\<close>

datatype 'a result = Returned 'a | Panicked string | Exited int

text \<open>The state of a process that has just started: Go's zero values.\<close>

definition start :: state where
  "start = \<lparr>logger = None, correlationIdContextKey = [], correlationIdFieldKey = [],
            stdout = [], stderr = [], files = [], built = [], listeners = [],
            sampler = []\<rparr>"

text \<open>
  Two fixed surroundings used for concrete runs: a backend that builds every configuration,
  and the empty context \<open>context.Background()\<close>.
\<close>

definition builds_always :: "Config \<Rightarrow> string option" where
  "builds_always cfg = None"

definition Background :: Context where
  "Background key = ANil"

text \<open>A backend that refuses every configuration.\<close>

definition builds_never :: "Config \<Rightarrow> string option" where
  "builds_never cfg = Some ''no such encoder''"

section \<open>Key configuration\<close>

definition SetCorrelationIdFieldKey :: "string \<Rightarrow> state \<Rightarrow> state" where
  "SetCorrelationIdFieldKey key s =
     (if key = [] then s else s\<lparr>correlationIdFieldKey := key\<rparr>)"

definition SetCorrelationIdContextKey :: "string \<Rightarrow> state \<Rightarrow> state" where
  "SetCorrelationIdContextKey key s =
     (if key = [] then s else s\<lparr>correlationIdContextKey := key\<rparr>)"

section \<open>Accessors\<close>

text \<open>\<open>logger.Sugar()\<close> wraps the same backend logger in the sugared interface.\<close>

definition Sugar :: "zap_Logger \<Rightarrow> zap_SugaredLogger" where
  "Sugar l = zap_SugaredLogger l"

definition SugaredLogger :: "state \<Rightarrow> CSugaredLogger result" where
  "SugaredLogger s =
     (case logger s of
        None \<Rightarrow> Panicked ''logger not initialized. Call Init(ctx)''
      | Some lg \<Rightarrow> Returned (CSugaredLogger (Sugar (zl lg))))"

definition Logger :: "state \<Rightarrow> CLogger result" where
  "Logger s =
     (case logger s of
        None \<Rightarrow> Panicked ''logger not initialized. Call Init(ctx)''
      | Some lg \<Rightarrow> Returned lg)"

section \<open>Backend operations\<close>

text \<open>
  Modelled from the spec: \<open>zap.Logger.With\<close> (third-party, not under src/). Adding fields
  never changes the receiver; it produces a new handle carrying the existing fields plus the
  new ones.
\<close>

definition zap_With :: "zap_Logger \<Rightarrow> Field list \<Rightarrow> zap_Logger" where
  "zap_With l fs = l\<lparr>attached := attached l @ fs\<rparr>"

text \<open>
  Modelled from the spec: the sugared handle's \<open>With\<close> (third-party, not under src/) takes
  loosely typed arguments, a mix of strongly typed fields and key-value pairs. A typed field
  is taken as it is; otherwise the argument is a key and the next one its value. A key with
  no value after it and a pair whose key is not a string attach nothing.
\<close>

fun sweetenFields :: "any list \<Rightarrow> Field list" where
  "sweetenFields [] = []"
| "sweetenFields (AField k v # rest) = (k, v) # sweetenFields rest"
| "sweetenFields [dangling] = []"
| "sweetenFields (AString k # v # rest) = (k, v) # sweetenFields rest"
| "sweetenFields (other # v # rest) = sweetenFields rest"

definition zap_Sugared_With :: "zap_SugaredLogger \<Rightarrow> any list \<Rightarrow> zap_SugaredLogger" where
  "zap_Sugared_With sl args = zap_SugaredLogger (zap_With (base sl) (sweetenFields args))"

text \<open>
  The field constructors the package uses. \<open>zap.Stringp\<close> is always called with the address
  of a local string, never with nil. A \<open>zap.Field\<close> passed where \<open>interface{}\<close> is expected
  is boxed.
\<close>

definition Stringp :: "string \<Rightarrow> string \<Rightarrow> Field" where
  "Stringp key s = (key, AString s)"

definition Strings :: "string \<Rightarrow> string list \<Rightarrow> Field" where
  "Strings key ss = (key, AStrings ss)"

definition box :: "Field \<Rightarrow> any" where
  "box f = AField (fst f) (snd f)"

text \<open>
  Modelled from the spec: emission (third-party, not under src/). A record is considered
  when its severity is at or above the threshold. With sampling configured it is then
  counted, and dropped when it is beyond the initial burst and not an every-Nth one; a
  record that is not dropped is written, with the handle's fields first, to every path of
  \<open>OutputPaths\<close>. The paths \<open>stdout\<close> and \<open>stderr\<close> name the two standard streams, any
  other path a file. Timestamp, caller and stack trace are added by the encoder and are not
  part of \<open>Entry\<close>.
\<close>

definition Enabled :: "Level \<Rightarrow> Level \<Rightarrow> bool" where
  "Enabled threshold lvl = (level_rank threshold \<le> level_rank lvl)"

definition write_sink :: "Line \<Rightarrow> string \<Rightarrow> state \<Rightarrow> state" where
  "write_sink e path s =
     (if path = ''stdout'' then s\<lparr>stdout := stdout s @ [e]\<rparr>
      else if path = ''stderr'' then s\<lparr>stderr := stderr s @ [e]\<rparr>
      else s\<lparr>files := files s @ [(path, e)]\<rparr>)"

text \<open>
  Modelled from the spec: the sampling policy (third-party, not under src/). Of the records
  of one severity and message in an interval the first \<open>Initial\<close> pass, then only every
  \<open>Thereafter\<close>-th. \<open>n\<close> is the number of such records so far, the present one included.
\<close>

definition sampled_out :: "SamplingConfig \<Rightarrow> int \<Rightarrow> bool" where
  "sampled_out sc n =
     (Initial sc < n \<and> (Thereafter sc = 0 \<or> (n - Initial sc) mod Thereafter sc \<noteq> 0))"

text \<open>The end of a sampling interval: the counters start again.\<close>

definition interval_elapsed :: "state \<Rightarrow> state" where
  "interval_elapsed s = s\<lparr>sampler := []\<rparr>"

definition zap_write :: "zap_Logger \<Rightarrow> Level \<Rightarrow> string \<Rightarrow> Field list \<Rightarrow> state \<Rightarrow> state" where
  "zap_write l lvl msg fs s =
     (if Enabled (Level (config l)) lvl
      then
        (case Sampling (config l) of
           None \<Rightarrow>
             fold (write_sink (Record \<lparr>severity = lvl, message = msg, written = attached l @ fs\<rparr>))
               (OutputPaths (config l)) s
         | Some sc \<Rightarrow>
             let s1 = s\<lparr>sampler := sampler s @ [(lvl, msg)]\<rparr>
             in if sampled_out sc (int (count_list (sampler s1) (lvl, msg))) then s1
                else fold (write_sink
                             (Record \<lparr>severity = lvl, message = msg, written = attached l @ fs\<rparr>))
                       (OutputPaths (config l)) s1)
      else s)"

text \<open>
  Modelled from the spec: an error of the logger itself (a failed write, a malformed call) is
  routed to the error sink, every path of \<open>ErrorOutputPaths\<close>, never to the caller.
\<close>

definition zap_internal_error :: "zap_Logger \<Rightarrow> string \<Rightarrow> state \<Rightarrow> state" where
  "zap_internal_error l err s = fold (write_sink (Internal err)) (ErrorOutputPaths (config l)) s"

definition zap_Info :: "zap_Logger \<Rightarrow> string \<Rightarrow> Field list \<Rightarrow> state \<Rightarrow> state" where
  "zap_Info l msg fs s = zap_write l InfoLevel msg fs s"


text \<open>
  \<open>zapConfig.Build()\<close>. Whether construction fails is decided outside the package (an
  encoder that is not registered, a sink that cannot be opened): \<open>build_error\<close> gives the
  error for a configuration, \<open>None\<close> when it builds. A built logger carries the
  configuration and its initial fields, and its sampler starts with no record counted.
\<close>

definition Build :: "(Config \<Rightarrow> string option) \<Rightarrow> Config \<Rightarrow> state \<Rightarrow> (string + zap_Logger) \<times> state" where
  "Build build_error cfg s =
     (case build_error cfg of
        Some err \<Rightarrow> (Inl err, s)
      | None \<Rightarrow>
          (Inr \<lparr>config = cfg, attached = InitialFields cfg\<rparr>,
           s\<lparr>built := built s @ [cfg], sampler := []\<rparr>))"



section \<open>Handles\<close>

definition CLogger_WithCorrelationId :: "state \<Rightarrow> CLogger \<Rightarrow> any \<Rightarrow> CLogger" where
  "CLogger_WithCorrelationId s l correlationId =
     (case correlationId of
        AString x \<Rightarrow> CLogger (zap_With (zl l) [Stringp (correlationIdFieldKey s) x])
      | _ \<Rightarrow> l)"

definition CSugaredLogger_WithCorrelationId :: "state \<Rightarrow> CSugaredLogger \<Rightarrow> any \<Rightarrow> CSugaredLogger" where
  "CSugaredLogger_WithCorrelationId s l correlationId =
     (case correlationId of
        AString x \<Rightarrow>
          CSugaredLogger (zap_Sugared_With (zs l) [box (Stringp (correlationIdFieldKey s) x)])
      | _ \<Rightarrow> l)"

definition CLogger_With :: "CLogger \<Rightarrow> Field list \<Rightarrow> CLogger" where
  "CLogger_With l args = CLogger (zap_With (zl l) args)"

definition CSugaredLogger_With :: "CSugaredLogger \<Rightarrow> any list \<Rightarrow> CSugaredLogger" where
  "CSugaredLogger_With l args = CSugaredLogger (zap_Sugared_With (zs l) args)"

text \<open>The variant of \<open>src/logger.go\<close>: the key is the literal \<open>correlation_id\<close>.\<close>

definition CLogger_WithCorrelationId_ctx :: "CLogger \<Rightarrow> any \<Rightarrow> CLogger" where
  "CLogger_WithCorrelationId_ctx l correlationId =
     (case correlationId of
        AString x \<Rightarrow> CLogger (zap_With (zl l) [Stringp ''correlation_id'' x])
      | _ \<Rightarrow> l)"

definition CSugaredLogger_WithCorrelationId_ctx :: "CSugaredLogger \<Rightarrow> any \<Rightarrow> CSugaredLogger" where
  "CSugaredLogger_WithCorrelationId_ctx l correlationId =
     (case correlationId of
        AString x \<Rightarrow> CSugaredLogger (zap_Sugared_With (zs l) [box (Stringp ''correlation_id'' x)])
      | _ \<Rightarrow> l)"

text \<open>The fields a handle carries.\<close>

definition fields_of :: "CLogger \<Rightarrow> Field list" where
  "fields_of l = attached (zl l)"

definition sugared_fields_of :: "CSugaredLogger \<Rightarrow> Field list" where
  "sugared_fields_of l = attached (base (zs l))"

text \<open>
  The backend writes every attached field, in order, and does not merge equal keys.
  \<open>field_value\<close> is the value a reader of the record finds under a key when it keeps the
  last occurrence.
\<close>

definition field_value :: "Field list \<Rightarrow> string \<Rightarrow> any option" where
  "field_value fs k = map_of (rev fs) k"

section \<open>Initialization\<close>

text \<open>The two struct literals of each branch of \<open>Init\<close>, the same in both variants.\<close>

definition devEncoderConfig :: EncoderConfig where
  "devEncoderConfig =
     \<lparr>TimeKey = ''ts'', LevelKey = ''level'', NameKey = ''logger'', CallerKey = ''caller'',
      FunctionKey = ''func'', MessageKey = ''msg'', StacktraceKey = ''stacktrace'',
      LineEnding = DefaultLineEnding, EncodeLevel = LowercaseLevelEncoder,
      EncodeTime = RFC3339TimeEncoder, EncodeDuration = MillisDurationEncoder,
      EncodeCaller = FullCallerEncoder\<rparr>"

definition devConfig :: "Level \<Rightarrow> Config" where
  "devConfig atom =
     \<lparr>Level = atom, Development = True, DisableCaller = False, DisableStacktrace = False,
      Sampling = None, Encoding = ''json'', EncoderConfig = devEncoderConfig,
      OutputPaths = [''stdout''], ErrorOutputPaths = [''stdout''], InitialFields = []\<rparr>"

definition prodEncoderConfig :: EncoderConfig where
  "prodEncoderConfig =
     \<lparr>TimeKey = ''ts'', LevelKey = ''level'', NameKey = ''logger'', CallerKey = ''caller'',
      FunctionKey = OmitKey, MessageKey = ''msg'', StacktraceKey = ''stacktrace'',
      LineEnding = DefaultLineEnding, EncodeLevel = LowercaseLevelEncoder,
      EncodeTime = RFC3339TimeEncoder, EncodeDuration = MillisDurationEncoder,
      EncodeCaller = ShortCallerEncoder\<rparr>"

definition prodConfig :: "Level \<Rightarrow> Config" where
  "prodConfig atom =
     \<lparr>Level = atom, Development = False, DisableCaller = False, DisableStacktrace = False,
      Sampling = Some \<lparr>Initial = 100, Thereafter = 100\<rparr>, Encoding = ''json'',
      EncoderConfig = prodEncoderConfig,
      OutputPaths = [''stdout''], ErrorOutputPaths = [''stdout''], InitialFields = []\<rparr>"

text \<open>A handle that already carries a field, for concrete runs.\<close>

definition sample_logger :: zap_Logger where
  "sample_logger = \<lparr>config = prodConfig InfoLevel, attached = [(''op'', AString ''checkout'')]\<rparr>"

text \<open>The goroutine that serves the level on port 53835; a failure to bind is dropped.\<close>

definition spawn_listener :: "Level \<Rightarrow> state \<Rightarrow> state" where
  "spawn_listener atom s =
     s\<lparr>listeners := listeners s @ [\<lparr>addr = '':53835'', route = ''/loglevel'', serves = atom\<rparr>]\<rparr>"

text \<open>
  \<open>Init(ctx, enableLogLevelEndpoint, developmentMode)\<close>. The context is not read. The
  result is paired with the state the call leaves behind, also when it panics.
\<close>

definition Init :: "(Config \<Rightarrow> string option) \<Rightarrow> Context \<Rightarrow> bool \<Rightarrow> bool \<Rightarrow> state \<Rightarrow> unit result \<times> state" where
  "Init build_error ctx enableLogLevelEndpoint developmentMode s =
     (if logger s \<noteq> None then (Returned (), s)
      else
        let s1 = s\<lparr>correlationIdContextKey := ''correlation_id''\<rparr>;
            s2 = s1\<lparr>correlationIdFieldKey := ''correlation_id''\<rparr>;
            (loggerMode, atom, zapConfig) =
              (if developmentMode then ([''dev''], DebugLevel, devConfig DebugLevel)
               else ([''prod''], InfoLevel, prodConfig InfoLevel));
            (loggerMode, s3) =
              (if enableLogLevelEndpoint
               then (loggerMode @ [''serveHttp''], spawn_listener atom s2)
               else (loggerMode, s2))
        in case Build build_error zapConfig s3 of
             (Inl err, s4) \<Rightarrow> (Panicked (''logger initalization error: '' @ err), s4)
           | (Inr l, s4) \<Rightarrow>
               let s5 = zap_Info l ''Logger initialized successfully''
                          [Strings ''logger_modes'' loggerMode] s4;
                   s6 = (if enableLogLevelEndpoint
                         then zap_Info l ''Logger HTTP Server active on :53835/loglevel'' [] s5
                         else s5)
               in (Returned (), s6\<lparr>logger := Some (CLogger l)\<rparr>))"

text \<open>
  \<open>Init(ctx)\<close> of \<open>src/logger.go\<close>. Both flags are read from the context by a type
  assertion to \<open>bool\<close>. The \<open>lsh\<close> of the \<open>var\<close> block is never assigned: the \<open>if\<close> that
  tests the context declares a second \<open>lsh\<close> of its own (\<open>lsh_inner\<close> here), so the last
  test reads the zero value. The correlation keys are not touched.
\<close>

fun assert_bool :: "any \<Rightarrow> bool \<times> bool" where
  "assert_bool (ABool b) = (b, True)"
| "assert_bool v = (False, False)"

definition Init_ctx :: "(Config \<Rightarrow> string option) \<Rightarrow> Context \<Rightarrow> state \<Rightarrow> unit result \<times> state" where
  "Init_ctx build_error ctx s =
     (if logger s \<noteq> None then (Returned (), s)
      else
        let lsh = False;
            (devEnv, ok) = assert_bool (ctx ''env_development'');
            (loggerMode, atom, zapConfig) =
              (if ok \<and> devEnv then ([''dev''], DebugLevel, devConfig DebugLevel)
               else ([''prod''], InfoLevel, prodConfig InfoLevel));
            (lsh_inner, ok) = assert_bool (ctx ''logger_serveHttp'');
            (loggerMode, s3) =
              (if ok \<and> lsh_inner
               then (loggerMode @ [''serveHttp''], spawn_listener atom s)
               else (loggerMode, s))
        in case Build build_error zapConfig s3 of
             (Inl err, s4) \<Rightarrow> (Panicked (''logger initalization error: '' @ err), s4)
           | (Inr l, s4) \<Rightarrow>
               let s5 = zap_Info l ''Logger initialized successfully''
                          [Strings ''logger_modes'' loggerMode] s4;
                   s6 = (if lsh
                         then zap_Info l ''Logger HTTP Server active on :53835/loglevel'' [] s5
                         else s5)
               in (Returned (), s6\<lparr>logger := Some (CLogger l)\<rparr>))"


section \<open>Panic recovery\<close>


section \<open>Auxiliary facts\<close>

lemmas Init_defs = Init_def Build_def zap_Info_def zap_write_def Enabled_def write_sink_def
  devConfig_def prodConfig_def spawn_listener_def Strings_def sampled_out_def

lemmas Init_ctx_defs = Init_ctx_def Build_def zap_Info_def zap_write_def Enabled_def
  write_sink_def devConfig_def prodConfig_def spawn_listener_def Strings_def sampled_out_def

subsection \<open>The handle after a call of Init\<close>

lemma Init_Returned_logger:
  "Init be ctx e d s = (Returned (), s') \<Longrightarrow> logger s' \<noteq> None"
  by (auto simp: Init_defs Let_def split: if_splits option.splits)

lemma Init_ctx_Returned_logger:
  "Init_ctx be ctx s = (Returned (), s') \<Longrightarrow> logger s' \<noteq> None"
  by (auto simp: Init_ctx_defs Let_def split: if_splits option.splits prod.splits)

lemma Init_Panicked_logger:
  "Init be ctx e d s = (Panicked p, s') \<Longrightarrow> logger s' = None"
  by (auto simp: Init_defs Let_def split: if_splits option.splits)

lemma Init_ctx_Panicked_logger:
  "Init_ctx be ctx s = (Panicked p, s') \<Longrightarrow> logger s' = None"
  by (auto simp: Init_ctx_defs Let_def split: if_splits option.splits prod.splits)

lemma Init_first_logger:
  assumes "logger s = None" and "Init be ctx e d s = (Returned (), s')"
  shows "logger s' =
    Some (CLogger \<lparr>config = (if d then devConfig DebugLevel else prodConfig InfoLevel),
                   attached = []\<rparr>)"
  using assms
  by (auto simp: Init_def Build_def devConfig_def prodConfig_def Let_def
      split: if_splits option.splits)

lemma assert_bool_True:
  "assert_bool v = (b, ok) \<Longrightarrow> (ok \<and> b) = (v = ABool True)"
  by (cases v) auto

lemma Init_ctx_first_logger:
  assumes "logger s = None" and "Init_ctx be ctx s = (Returned (), s')"
  shows "logger s' =
    Some (CLogger \<lparr>config = (if ctx ''env_development'' = ABool True
                             then devConfig DebugLevel else prodConfig InfoLevel),
                   attached = []\<rparr>)"
proof -
  obtain b ok where a: "assert_bool (ctx ''env_development'') = (b, ok)"
    by (cases "assert_bool (ctx ''env_development'')")
  from assms
  have "logger s' =
    Some (CLogger \<lparr>config = (if ok \<and> b then devConfig DebugLevel else prodConfig InfoLevel),
                   attached = []\<rparr>)"
    by (auto simp: Init_ctx_def Build_def devConfig_def prodConfig_def a Let_def
        split: if_splits option.splits prod.splits)
  then show ?thesis
    unfolding assert_bool_True [OF a] .
qed

subsection \<open>What a first call writes\<close>

lemma Init_first_stdout:
  assumes "logger s = None" and "Init be ctx e d s = (Returned (), s')"
  shows "stdout s' = stdout s @
       Record \<lparr>severity = InfoLevel, message = ''Logger initialized successfully'',
         written = [(''logger_modes'',
           AStrings ((if d then [''dev''] else [''prod'']) @
                     (if e then [''serveHttp''] else [])))]\<rparr>
       # (if e then [Record \<lparr>severity = InfoLevel,
                      message = ''Logger HTTP Server active on :53835/loglevel'',
                      written = []\<rparr>] else [])"
    and "stderr s' = stderr s" and "files s' = files s"
  using assms by (auto simp: Init_defs Let_def split: if_splits option.splits)

lemma Init_ctx_first_stdout:
  assumes "logger s = None" and "Init_ctx be ctx s = (Returned (), s')"
  shows "stdout s' = stdout s @
       [Record \<lparr>severity = InfoLevel, message = ''Logger initialized successfully'',
         written = [(''logger_modes'',
           AStrings ((if ctx ''env_development'' = ABool True then [''dev''] else [''prod'']) @
                     (if ctx ''logger_serveHttp'' = ABool True then [''serveHttp''] else [])))]\<rparr>]"
    and "stderr s' = stderr s" and "files s' = files s"
proof -
  obtain b1 ok1 where a1: "assert_bool (ctx ''env_development'') = (b1, ok1)"
    by (cases "assert_bool (ctx ''env_development'')")
  obtain b2 ok2 where a2: "assert_bool (ctx ''logger_serveHttp'') = (b2, ok2)"
    by (cases "assert_bool (ctx ''logger_serveHttp'')")
  note t1 = assert_bool_True [OF a1] and t2 = assert_bool_True [OF a2]
  from assms
  have r: "stdout s' = stdout s @
       [Record \<lparr>severity = InfoLevel, message = ''Logger initialized successfully'',
         written = [(''logger_modes'',
           AStrings ((if ok1 \<and> b1 then [''dev''] else [''prod'']) @
                     (if ok2 \<and> b2 then [''serveHttp''] else [])))]\<rparr>]
     \<and> stderr s' = stderr s \<and> files s' = files s"
    by (auto simp: Init_ctx_defs a1 a2 Let_def split: if_splits option.splits)
  from r show "stdout s' = stdout s @
       [Record \<lparr>severity = InfoLevel, message = ''Logger initialized successfully'',
         written = [(''logger_modes'',
           AStrings ((if ctx ''env_development'' = ABool True then [''dev''] else [''prod'']) @
                     (if ctx ''logger_serveHttp'' = ABool True then [''serveHttp''] else [])))]\<rparr>]"
    unfolding t1 t2 by simp
  from r show "stderr s' = stderr s" and "files s' = files s" by simp_all
qed

subsection \<open>Concrete runs from the start state\<close>

lemma logger_start: "logger start = None"
  by (simp add: start_def)

lemma Init_start:
  "Init builds_always Background e d start =
     (Returned (),
      \<lparr>logger = Some (CLogger \<lparr>config = (if d then devConfig DebugLevel else prodConfig InfoLevel),
                                attached = []\<rparr>),
       correlationIdContextKey = ''correlation_id'', correlationIdFieldKey = ''correlation_id'',
       stdout = Record \<lparr>severity = InfoLevel, message = ''Logger initialized successfully'',
                  written = [(''logger_modes'',
                    AStrings ((if d then [''dev''] else [''prod'']) @
                              (if e then [''serveHttp''] else [])))]\<rparr>
                # (if e then [Record \<lparr>severity = InfoLevel,
                                message = ''Logger HTTP Server active on :53835/loglevel'',
                                written = []\<rparr>] else []),
       stderr = [], files = [],
       built = [if d then devConfig DebugLevel else prodConfig InfoLevel],
       listeners = (if e then [\<lparr>addr = '':53835'', route = ''/loglevel'',
                                 serves = (if d then DebugLevel else InfoLevel)\<rparr>] else []),
       sampler = (if d then []
                  else (InfoLevel, ''Logger initialized successfully'')
                       # (if e then [(InfoLevel, ''Logger HTTP Server active on :53835/loglevel'')]
                          else []))\<rparr>)"
  by (simp add: Init_defs start_def builds_always_def Let_def)

lemma Init_ctx_start:
  "Init_ctx builds_always Background start =
     (Returned (),
      \<lparr>logger = Some (CLogger \<lparr>config = prodConfig InfoLevel, attached = []\<rparr>),
       correlationIdContextKey = [], correlationIdFieldKey = [],
       stdout = [Record \<lparr>severity = InfoLevel, message = ''Logger initialized successfully'',
                  written = [(''logger_modes'', AStrings [''prod''])]\<rparr>],
       stderr = [], files = [],
       built = [prodConfig InfoLevel],
       listeners = [],
       sampler = [(InfoLevel, ''Logger initialized successfully'')]\<rparr>)"
  by (simp add: Init_ctx_defs start_def builds_always_def Background_def Let_def)

lemma Init_never_start:
  "fst (Init builds_never Background e d start) =
     Panicked ''logger initalization error: no such encoder''"
  by (simp add: Init_defs start_def builds_never_def Let_def)

subsection \<open>Accessors and setters\<close>

lemma accessors_nil:
  "logger s = None \<Longrightarrow>
     Logger s = Panicked ''logger not initialized. Call Init(ctx)'' \<and>
     SugaredLogger s = Panicked ''logger not initialized. Call Init(ctx)''"
  by (simp add: Logger_def SugaredLogger_def)

lemma accessors_set:
  "logger s \<noteq> None \<Longrightarrow>
     \<exists>h. logger s = Some h \<and> Logger s = Returned h \<and>
         SugaredLogger s = Returned (CSugaredLogger (zap_SugaredLogger (zl h)))"
  by (auto simp add: Logger_def SugaredLogger_def Sugar_def)

lemma logger_Set [simp]:
  "logger (SetCorrelationIdFieldKey k s) = logger s"
  "logger (SetCorrelationIdContextKey k s) = logger s"
  by (simp_all add: SetCorrelationIdFieldKey_def SetCorrelationIdContextKey_def)

lemma Init_first_keys:
  "logger s = None \<Longrightarrow>
     correlationIdContextKey (snd (Init be ctx e d s)) = ''correlation_id'' \<and>
     correlationIdFieldKey (snd (Init be ctx e d s)) = ''correlation_id''"
  by (auto simp: Init_defs Let_def split: if_splits option.splits)

subsection \<open>Fields of a handle\<close>

lemma fields_of_With: "fields_of (CLogger_With l args) = fields_of l @ args"
  by (simp add: CLogger_With_def fields_of_def zap_With_def)

lemma config_With: "config (zl (CLogger_With l args)) = config (zl l)"
  by (simp add: CLogger_With_def zap_With_def)

lemma sugared_fields_of_With:
  "sugared_fields_of (CSugaredLogger_With l args) = sugared_fields_of l @ sweetenFields args"
  by (simp add: CSugaredLogger_With_def sugared_fields_of_def zap_With_def zap_Sugared_With_def)

lemma fields_of_foldl_With:
  "fields_of (foldl CLogger_With l calls) = fields_of l @ concat calls"
  by (induction calls arbitrary: l) (simp_all add: fields_of_With)

lemma config_foldl_With:
  "config (zl (foldl CLogger_With l calls)) = config (zl l)"
  by (induction calls arbitrary: l) (simp_all add: config_With)

lemma sugared_fields_of_foldl_With:
  "sugared_fields_of (foldl CSugaredLogger_With l calls)
     = sugared_fields_of l @ concat (map sweetenFields calls)"
  by (induction calls arbitrary: l) (simp_all add: sugared_fields_of_With)

lemma count_list_replicate: "count_list (replicate n x) x = n"
  by (induction n) simp_all

lemma field_value_append:
  "field_value (fs @ gs) k =
     (case field_value gs k of Some v \<Rightarrow> Some v | None \<Rightarrow> field_value fs k)"
  by (simp add: field_value_def map_add_def split: option.split)

subsection \<open>The record of a recovered panic\<close>


section \<open>Initialization lifecycle\<close>

text \<open>
  C1. \<open>Init\<close> is idempotent. For every pair of flag values (and, in the context-driven
  variant, every context), a call made while the process-wide handle is non-nil returns at
  once and leaves the whole process state as it was: the handle, both keys, everything
  written to the sinks, the backends constructed and the listeners spawned. In particular a
  call that follows a successful call, with the same flags or with others, changes nothing.
\<close>

theorem Init_idempotent:
  "(logger t \<noteq> None \<longrightarrow>
      Init be ctx e d t = (Returned (), t) \<and> Init_ctx be ctx t = (Returned (), t)) \<and>
   (Init be ctx e d s = (Returned (), s') \<longrightarrow> Init be2 ctx2 e2 d2 s' = (Returned (), s')) \<and>
   (Init_ctx be ctx s = (Returned (), s') \<longrightarrow> Init_ctx be2 ctx2 s' = (Returned (), s'))"
proof (intro conjI impI)
  assume "logger t \<noteq> None"
  then show "Init be ctx e d t = (Returned (), t)" by (simp add: Init_def)
next
  assume "logger t \<noteq> None"
  then show "Init_ctx be ctx t = (Returned (), t)" by (simp add: Init_ctx_def)
next
  assume "Init be ctx e d s = (Returned (), s')"
  then have "logger s' \<noteq> None" by (rule Init_Returned_logger)
  then show "Init be2 ctx2 e2 d2 s' = (Returned (), s')" by (simp add: Init_def)
next
  assume "Init_ctx be ctx s = (Returned (), s')"
  then have "logger s' \<noteq> None" by (rule Init_ctx_Returned_logger)
  then show "Init_ctx be2 ctx2 s' = (Returned (), s')" by (simp add: Init_ctx_def)
qed

text \<open>
  A run: the process starts, \<open>Init\<close> succeeds with the level endpoint on, and a second call
  in development mode without the endpoint leaves that state untouched; likewise for the
  context-driven variant.
\<close>

theorem Init_idempotent_witness:
  "logger (snd (Init builds_always Background True False start)) \<noteq> None \<and>
   Init builds_always Background True False start =
     (Returned (), snd (Init builds_always Background True False start)) \<and>
   Init builds_always Background False True (snd (Init builds_always Background True False start)) =
     (Returned (), snd (Init builds_always Background True False start)) \<and>
   Init_ctx builds_always Background (snd (Init builds_always Background True False start)) =
     (Returned (), snd (Init builds_always Background True False start)) \<and>
   Init_ctx builds_always Background start =
     (Returned (), snd (Init_ctx builds_always Background start)) \<and>
   Init_ctx builds_always Background (snd (Init_ctx builds_always Background start)) =
     (Returned (), snd (Init_ctx builds_always Background start))"
proof -
  let ?s1 = "snd (Init builds_always Background True False start)"
  let ?s2 = "snd (Init_ctx builds_always Background start)"
  have a: "Init builds_always Background True False start = (Returned (), ?s1)"
    by (simp add: Init_start)
  have b: "Init_ctx builds_always Background start = (Returned (), ?s2)"
    by (simp add: Init_ctx_start)
  have c: "logger ?s1 \<noteq> None"
    by (simp add: Init_start)
  from a b c
    Init_idempotent [where t = ?s1 and be = builds_always and ctx = Background and e = True
      and d = False and s = start and s' = ?s1 and ?be2.0 = builds_always
      and ?ctx2.0 = Background and ?e2.0 = False and ?d2.0 = True]
    Init_idempotent [where t = ?s1 and be = builds_always and ctx = Background and e = False
      and d = True and s = start and s' = ?s2 and ?be2.0 = builds_always
      and ?ctx2.0 = Background and ?e2.0 = False and ?d2.0 = True]
  show ?thesis by simp
qed

text \<open>
  C3. While the process-wide handle is nil, \<open>Logger()\<close> and \<open>SugaredLogger()\<close> panic with
  the message \<open>logger not initialized. Call Init(ctx)\<close> and return no handle. That is the
  case before any call of \<open>Init\<close> and still after a call of \<open>Init\<close> that panicked because
  the backend could not be built. After a call of \<open>Init\<close> that returned, both accessors
  return a handle: \<open>Logger()\<close> the stored one, \<open>SugaredLogger()\<close> its sugared form.
\<close>

theorem accessors_require_Init:
  "(logger s = None \<longrightarrow>
      Logger s = Panicked ''logger not initialized. Call Init(ctx)'' \<and>
      SugaredLogger s = Panicked ''logger not initialized. Call Init(ctx)'') \<and>
   (Init be ctx e d s = (Panicked p, s') \<or> Init_ctx be ctx s = (Panicked p, s') \<longrightarrow>
      Logger s' = Panicked ''logger not initialized. Call Init(ctx)'' \<and>
      SugaredLogger s' = Panicked ''logger not initialized. Call Init(ctx)'') \<and>
   (Init be ctx e d s = (Returned (), s') \<or> Init_ctx be ctx s = (Returned (), s') \<longrightarrow>
      (\<exists>h. logger s' = Some h \<and> Logger s' = Returned h \<and>
           SugaredLogger s' = Returned (CSugaredLogger (zap_SugaredLogger (zl h)))))"
proof (intro conjI impI)
  assume "logger s = None"
  then show "Logger s = Panicked ''logger not initialized. Call Init(ctx)''"
    and "SugaredLogger s = Panicked ''logger not initialized. Call Init(ctx)''"
    by (simp_all add: accessors_nil)
next
  assume "Init be ctx e d s = (Panicked p, s') \<or> Init_ctx be ctx s = (Panicked p, s')"
  then have "logger s' = None"
    using Init_Panicked_logger Init_ctx_Panicked_logger by blast
  then show "Logger s' = Panicked ''logger not initialized. Call Init(ctx)''"
    and "SugaredLogger s' = Panicked ''logger not initialized. Call Init(ctx)''"
    by (simp_all add: accessors_nil)
next
  assume "Init be ctx e d s = (Returned (), s') \<or> Init_ctx be ctx s = (Returned (), s')"
  then have "logger s' \<noteq> None"
    using Init_Returned_logger Init_ctx_Returned_logger by blast
  then show "\<exists>h. logger s' = Some h \<and> Logger s' = Returned h \<and>
           SugaredLogger s' = Returned (CSugaredLogger (zap_SugaredLogger (zl h)))"
    by (rule accessors_set)
qed

text \<open>
  A run: at the start both accessors panic; they still do after an \<open>Init\<close> whose backend
  refused to build; they return a handle after an \<open>Init\<close> that succeeded.
\<close>

theorem accessors_require_Init_witness:
  "logger start = None \<and>
   Logger start = Panicked ''logger not initialized. Call Init(ctx)'' \<and>
   SugaredLogger start = Panicked ''logger not initialized. Call Init(ctx)'' \<and>
   fst (Init builds_never Background False False start) =
     Panicked ''logger initalization error: no such encoder'' \<and>
   Logger (snd (Init builds_never Background False False start)) =
     Panicked ''logger not initialized. Call Init(ctx)'' \<and>
   fst (Init builds_always Background False False start) = Returned () \<and>
   (\<exists>h. Logger (snd (Init builds_always Background False False start)) = Returned h) \<and>
   (\<exists>h. SugaredLogger (snd (Init builds_always Background False False start)) = Returned h)"
proof -
  let ?bad = "Init builds_never Background False False start"
  let ?good = "Init builds_always Background False False start"
  have b: "fst ?bad = Panicked ''logger initalization error: no such encoder''"
    by (rule Init_never_start)
  then have b': "?bad = (Panicked ''logger initalization error: no such encoder'', snd ?bad)"
    by (simp add: prod_eq_iff)
  have g: "fst ?good = Returned ()"
    by (simp add: Init_start)
  then have g': "?good = (Returned (), snd ?good)"
    by (simp add: prod_eq_iff)
  from logger_start b g
    accessors_require_Init [of start builds_never Background False False
      "''logger initalization error: no such encoder''" "snd ?bad"]
    accessors_require_Init [of start builds_always Background False False
      "''logger initalization error: no such encoder''" "snd ?good"]
    b' g'
  show ?thesis by blast
qed

text \<open>
  C5. Mode selection of the initializing call (the handle was nil and \<open>Init\<close> returned). The
  development flag \<open>d\<close> is the parameter \<open>developmentMode\<close>, or, in the context-driven
  variant, whether the context holds the boolean \<open>true\<close> under \<open>env_development\<close>. With
  the flag set the stored backend has threshold Debug, function key \<open>func\<close>, the full caller
  encoder and no sampling; without it the threshold is Info, the function key is the omitted
  key, the caller encoder is the short one, and sampling is on with Initial = 100 and
  Thereafter = 100.
\<close>

theorem Init_mode_selection:
  assumes "logger s = None"
    and "Init be ctx e d s = (Returned (), s') \<or>
         (Init_ctx be ctx s = (Returned (), s') \<and> d = (ctx ''env_development'' = ABool True))"
  shows "\<exists>l. logger s' = Some (CLogger l) \<and>
     (if d
      then Level (config l) = DebugLevel \<and>
           FunctionKey (EncoderConfig (config l)) = ''func'' \<and>
           EncodeCaller (EncoderConfig (config l)) = FullCallerEncoder \<and>
           Sampling (config l) = None
      else Level (config l) = InfoLevel \<and>
           FunctionKey (EncoderConfig (config l)) = OmitKey \<and>
           EncodeCaller (EncoderConfig (config l)) = ShortCallerEncoder \<and>
           Sampling (config l) = Some \<lparr>Initial = 100, Thereafter = 100\<rparr>)"
proof -
  have "logger s' =
    Some (CLogger \<lparr>config = (if d then devConfig DebugLevel else prodConfig InfoLevel),
                   attached = []\<rparr>)"
    using assms Init_first_logger [of s be ctx e d s'] Init_ctx_first_logger [of s be ctx s']
    by auto
  then show ?thesis
    by (simp add: devConfig_def prodConfig_def devEncoderConfig_def prodEncoderConfig_def)
qed

text \<open>
  Runs from the start state: development mode, production mode, and the context-driven
  variant on an empty context (production).
\<close>

theorem Init_mode_selection_witness:
  "logger start = None \<and>
   fst (Init builds_always Background False True start) = Returned () \<and>
   Level (config (zl (the (logger (snd (Init builds_always Background False True start))))))
     = DebugLevel \<and>
   Sampling (config (zl (the (logger (snd (Init builds_always Background False True start))))))
     = None \<and>
   fst (Init builds_always Background False False start) = Returned () \<and>
   Level (config (zl (the (logger (snd (Init builds_always Background False False start))))))
     = InfoLevel \<and>
   Sampling (config (zl (the (logger (snd (Init builds_always Background False False start))))))
     = Some \<lparr>Initial = 100, Thereafter = 100\<rparr> \<and>
   fst (Init_ctx builds_always Background start) = Returned () \<and>
   Level (config (zl (the (logger (snd (Init_ctx builds_always Background start))))))
     = InfoLevel"
proof -
  have bg: "(Background ''env_development'' = ABool True) = False"
    by (simp add: Background_def)
  from logger_start show ?thesis
    using
      Init_mode_selection [OF logger_start, of builds_always Background False True
        "snd (Init builds_always Background False True start)"]
      Init_mode_selection [OF logger_start, of builds_always Background False False
        "snd (Init builds_always Background False False start)"]
      Init_mode_selection [OF logger_start, of builds_always Background False False
        "snd (Init_ctx builds_always Background start)"]
    by (auto simp add: Init_start Init_ctx_start bg)
qed

text \<open>
  C4 as stated does not hold: the error output path is \<open>stdout\<close> too. After \<open>Init\<close> in
  production mode an error of the logger itself lands on standard output, behind the
  record \<open>Init\<close> wrote, and standard error stays empty.
\<close>

theorem internal_errors_not_on_stderr_counterexample:
  "ErrorOutputPaths
     (config (zl (the (logger (snd (Init builds_always Background False False start))))))
     = [''stdout''] \<and>
   stderr (zap_internal_error
             (zl (the (logger (snd (Init builds_always Background False False start)))))
             ''write error'' (snd (Init builds_always Background False False start))) = [] \<and>
   stdout (zap_internal_error
             (zl (the (logger (snd (Init builds_always Background False False start)))))
             ''write error'' (snd (Init builds_always Background False False start)))
     = [Record \<lparr>severity = InfoLevel, message = ''Logger initialized successfully'',
                written = [(''logger_modes'', AStrings [''prod''])]\<rparr>,
        Internal ''write error'']"
  by (simp add: Init_start zap_internal_error_def write_sink_def prodConfig_def)

text \<open>
  C4, amended. In both modes and both variants the initializing call stores a backend with
  JSON encoding whose output paths and error output paths are both the single path
  \<open>stdout\<close>. So a record given to that backend is either not written at all (it is below
  the threshold, or the sampler drops it) or appended to standard output, and exactly the
  records at or above the threshold that the sampler lets through are appended. An error
  of the logger itself is appended to standard output as well. Neither touches standard
  error or any other sink.
\<close>

theorem Init_output_sinks:
  assumes "logger s = None"
    and "Init be ctx e d s = (Returned (), s') \<or> Init_ctx be ctx s = (Returned (), s')"
  shows "\<exists>l. logger s' = Some (CLogger l) \<and>
     Encoding (config l) = ''json'' \<and>
     OutputPaths (config l) = [''stdout''] \<and>
     ErrorOutputPaths (config l) = [''stdout''] \<and>
     stdout (zap_write l lvl msg fs t) =
       stdout t @
         (if Enabled (Level (config l)) lvl \<and>
             (case Sampling (config l) of
                None \<Rightarrow> True
              | Some sc \<Rightarrow> \<not> sampled_out sc (int (count_list (sampler t) (lvl, msg)) + 1))
          then [Record \<lparr>severity = lvl, message = msg, written = fs\<rparr>] else []) \<and>
     stderr (zap_write l lvl msg fs t) = stderr t \<and>
     files (zap_write l lvl msg fs t) = files t \<and>
     stdout (zap_internal_error l err t) = stdout t @ [Internal err] \<and>
     stderr (zap_internal_error l err t) = stderr t \<and>
     files (zap_internal_error l err t) = files t"
proof -
  define c where "c = config (zl (the (logger s')))"
  from assms(2) have "logger s' = Some (CLogger \<lparr>config = c, attached = []\<rparr>) \<and>
      (c = devConfig DebugLevel \<or> c = prodConfig InfoLevel)"
  proof
    assume "Init be ctx e d s = (Returned (), s')"
    from Init_first_logger [OF assms(1) this] show ?thesis
      by (simp add: c_def)
  next
    assume "Init_ctx be ctx s = (Returned (), s')"
    from Init_ctx_first_logger [OF assms(1) this] show ?thesis
      by (simp add: c_def)
  qed
  then have l: "logger s' = Some (CLogger \<lparr>config = c, attached = []\<rparr>)"
    and c: "c = devConfig DebugLevel \<or> c = prodConfig InfoLevel"
    by simp_all
  have paths: "Encoding c = ''json'' \<and> OutputPaths c = [''stdout''] \<and>
      ErrorOutputPaths c = [''stdout'']"
    using c by (auto simp add: devConfig_def prodConfig_def)
  have w: "stdout (zap_write \<lparr>config = c, attached = []\<rparr> lvl msg fs t) =
       stdout t @
         (if Enabled (Level c) lvl \<and>
             (case Sampling c of
                None \<Rightarrow> True
              | Some sc \<Rightarrow> \<not> sampled_out sc (int (count_list (sampler t) (lvl, msg)) + 1))
          then [Record \<lparr>severity = lvl, message = msg, written = fs\<rparr>] else []) \<and>
     stderr (zap_write \<lparr>config = c, attached = []\<rparr> lvl msg fs t) = stderr t \<and>
     files (zap_write \<lparr>config = c, attached = []\<rparr> lvl msg fs t) = files t"
    by (cases "Sampling c")
      (simp_all add: paths zap_write_def write_sink_def Let_def add.commute)
  have i: "stdout (zap_internal_error \<lparr>config = c, attached = []\<rparr> err t) =
        stdout t @ [Internal err] \<and>
     stderr (zap_internal_error \<lparr>config = c, attached = []\<rparr> err t) = stderr t \<and>
     files (zap_internal_error \<lparr>config = c, attached = []\<rparr> err t) = files t"
    by (simp add: paths zap_internal_error_def write_sink_def)
  show ?thesis
    unfolding l using paths w i by simp
qed

text \<open>
  Runs from the start state, in production mode and in the context-driven variant. After
  the production \<open>Init\<close> a first record \<open>tick\<close> is written to standard output; once a hundred
  of them have been counted in the interval the next one is dropped.
\<close>

theorem Init_output_sinks_witness:
  "logger start = None \<and>
   fst (Init builds_always Background False False start) = Returned () \<and>
   ErrorOutputPaths
     (config (zl (the (logger (snd (Init builds_always Background False False start))))))
     = [''stdout''] \<and>
   OutputPaths
     (config (zl (the (logger (snd (Init builds_always Background False False start))))))
     = [''stdout''] \<and>
   stdout (zap_write (zl (the (logger (snd (Init builds_always Background False False start)))))
             InfoLevel ''tick'' [] (snd (Init builds_always Background False False start))) =
     [Record \<lparr>severity = InfoLevel, message = ''Logger initialized successfully'',
               written = [(''logger_modes'', AStrings [''prod''])]\<rparr>,
      Record \<lparr>severity = InfoLevel, message = ''tick'', written = []\<rparr>] \<and>
   stdout (zap_write (zl (the (logger (snd (Init builds_always Background False False start)))))
             InfoLevel ''tick'' []
             (start\<lparr>sampler := replicate 100 (InfoLevel, ''tick'')\<rparr>)) = [] \<and>
   fst (Init_ctx builds_always Background start) = Returned () \<and>
   ErrorOutputPaths (config (zl (the (logger (snd (Init_ctx builds_always Background start))))))
     = [''stdout'']"
proof -
  let ?s1 = "snd (Init builds_always Background False False start)"
  have l: "logger ?s1 = Some (CLogger \<lparr>config = prodConfig InfoLevel, attached = []\<rparr>)"
    by (simp add: Init_start)
  have o: "stdout ?s1 = [Record \<lparr>severity = InfoLevel, message = ''Logger initialized successfully'',
               written = [(''logger_modes'', AStrings [''prod''])]\<rparr>]"
    and sm: "sampler ?s1 = [(InfoLevel, ''Logger initialized successfully'')]"
    by (simp_all add: Init_start)
  have hundred: "count_list (replicate 100 (InfoLevel, ''tick'')) (InfoLevel, ''tick'') = 100"
    by (simp add: count_list_replicate)
  have st: "stdout start = []" by (simp add: start_def)
  from logger_start show ?thesis
    using
      Init_output_sinks [OF logger_start, of builds_always Background False False ?s1
        InfoLevel "''tick''" "[]" ?s1]
      Init_output_sinks [OF logger_start, of builds_always Background False False ?s1
        InfoLevel "''tick''" "[]" "start\<lparr>sampler := replicate 100 (InfoLevel, ''tick'')\<rparr>"]
      Init_output_sinks [OF logger_start, of builds_always Background False True
        "snd (Init_ctx builds_always Background start)"]
    by (auto simp add: Init_start Init_ctx_start l o sm hundred st prodConfig_def
        Enabled_def sampled_out_def)
qed

text \<open>
  C6 as stated does not hold: with the level endpoint enabled, \<open>Init\<close> writes two
  informational records before it returns, the second announcing the HTTP server.
\<close>

theorem Init_two_records_counterexample:
  "Init builds_always Background True False start =
     (Returned (),
      \<lparr>logger = Some (CLogger \<lparr>config = prodConfig InfoLevel, attached = []\<rparr>),
       correlationIdContextKey = ''correlation_id'', correlationIdFieldKey = ''correlation_id'',
       stdout = [Record \<lparr>severity = InfoLevel, message = ''Logger initialized successfully'',
                   written = [(''logger_modes'', AStrings [''prod'', ''serveHttp''])]\<rparr>,
                 Record \<lparr>severity = InfoLevel,
                   message = ''Logger HTTP Server active on :53835/loglevel'', written = []\<rparr>],
       stderr = [], files = [],
       built = [prodConfig InfoLevel],
       listeners = [\<lparr>addr = '':53835'', route = ''/loglevel'', serves = InfoLevel\<rparr>],
       sampler = [(InfoLevel, ''Logger initialized successfully''),
                  (InfoLevel, ''Logger HTTP Server active on :53835/loglevel'')]\<rparr>)"
  by (simp add: Init_defs start_def builds_always_def Let_def)

text \<open>
  C6, amended. The initializing call writes the informational record
  \<open>Logger initialized successfully\<close> exactly once, to standard output, and that record
  lists the active modes under \<open>logger_modes\<close>: \<open>dev\<close> or \<open>prod\<close> according to the
  development flag, then \<open>serveHttp\<close> when the level endpoint is enabled. In the flag-driven
  \<open>Init\<close> with the level endpoint enabled this record is followed by one more
  informational record, \<open>Logger HTTP Server active on :53835/loglevel\<close>. In every other
  case, that is the flag-driven \<open>Init\<close> with the endpoint disabled and the context-driven
  \<open>Init\<close> whatever the context holds, the record of the modes is the only record the call
  writes. Nothing goes to another sink.
\<close>

theorem Init_emits_modes_record:
  assumes "logger s = None"
  shows "(Init be ctx e d s = (Returned (), s') \<longrightarrow>
            stdout s' = stdout s @
              Record \<lparr>severity = InfoLevel, message = ''Logger initialized successfully'',
                written = [(''logger_modes'',
                  AStrings ((if d then [''dev''] else [''prod'']) @
                            (if e then [''serveHttp''] else [])))]\<rparr>
              # (if e then [Record \<lparr>severity = InfoLevel,
                             message = ''Logger HTTP Server active on :53835/loglevel'',
                             written = []\<rparr>] else []) \<and>
            stderr s' = stderr s \<and> files s' = files s) \<and>
         (Init_ctx be ctx s = (Returned (), s') \<longrightarrow>
            stdout s' = stdout s @
              [Record \<lparr>severity = InfoLevel, message = ''Logger initialized successfully'',
                written = [(''logger_modes'',
                  AStrings ((if ctx ''env_development'' = ABool True
                             then [''dev''] else [''prod'']) @
                            (if ctx ''logger_serveHttp'' = ABool True
                             then [''serveHttp''] else [])))]\<rparr>] \<and>
            stderr s' = stderr s \<and> files s' = files s)"
  using Init_first_stdout [OF assms, of be ctx e d s']
    Init_ctx_first_stdout [OF assms, of be ctx s']
  by simp

text \<open>
  Runs from the start state: development mode without the endpoint, and the context-driven
  variant on the empty context; each writes the record of the modes and nothing else.
\<close>

theorem Init_emits_modes_record_witness:
  "logger start = None \<and>
   fst (Init builds_always Background False True start) = Returned () \<and>
   stdout (snd (Init builds_always Background False True start)) =
     [Record \<lparr>severity = InfoLevel, message = ''Logger initialized successfully'',
               written = [(''logger_modes'', AStrings [''dev''])]\<rparr>] \<and>
   fst (Init_ctx builds_always Background start) = Returned () \<and>
   stdout (snd (Init_ctx builds_always Background start)) =
     [Record \<lparr>severity = InfoLevel, message = ''Logger initialized successfully'',
              written = [(''logger_modes'', AStrings [''prod''])]\<rparr>]"
proof -
  let ?s1 = "snd (Init builds_always Background False True start)"
  let ?s2 = "snd (Init_ctx builds_always Background start)"
  have a: "Init builds_always Background False True start = (Returned (), ?s1)"
    by (simp add: Init_start)
  have b: "Init_ctx builds_always Background start = (Returned (), ?s2)"
    by (simp add: Init_ctx_start)
  have o: "stdout start = []" by (simp add: start_def)
  have f: "fst (Init builds_always Background False True start) = Returned ()"
      "fst (Init_ctx builds_always Background start) = Returned ()"
    by (simp_all add: Init_start Init_ctx_start)
  from logger_start a b o f
    Init_emits_modes_record [OF logger_start, of builds_always Background False True ?s1]
    Init_emits_modes_record [OF logger_start, of builds_always Background False True ?s2]
  show ?thesis
    by (auto simp add: Background_def)
qed

section \<open>Logger facade\<close>

text \<open>
  C2. \<open>WithCorrelationId\<close> on either kind of handle. Given a value whose dynamic type is
  string, it returns a handle with the receiver's configuration and the receiver's fields
  followed by one more field: the string under the correlation field key (the configured
  key, or the literal \<open>correlation_id\<close> in the variant of \<open>src/logger.go\<close>). Given a
  value of any other dynamic type, the nil interface included, it returns the receiver
  itself and does not fail. Handles are values here, so no call can change its receiver.
\<close>

theorem WithCorrelationId_string_or_noop:
  "fields_of (CLogger_WithCorrelationId s l (AString v)) =
     fields_of l @ [(correlationIdFieldKey s, AString v)] \<and>
   config (zl (CLogger_WithCorrelationId s l (AString v))) = config (zl l) \<and>
   sugared_fields_of (CSugaredLogger_WithCorrelationId s sl (AString v)) =
     sugared_fields_of sl @ [(correlationIdFieldKey s, AString v)] \<and>
   config (base (zs (CSugaredLogger_WithCorrelationId s sl (AString v)))) =
     config (base (zs sl)) \<and>
   fields_of (CLogger_WithCorrelationId_ctx l (AString v)) =
     fields_of l @ [(''correlation_id'', AString v)] \<and>
   config (zl (CLogger_WithCorrelationId_ctx l (AString v))) = config (zl l) \<and>
   sugared_fields_of (CSugaredLogger_WithCorrelationId_ctx sl (AString v)) =
     sugared_fields_of sl @ [(''correlation_id'', AString v)] \<and>
   config (base (zs (CSugaredLogger_WithCorrelationId_ctx sl (AString v)))) =
     config (base (zs sl)) \<and>
   ((\<forall>x. c \<noteq> AString x) \<longrightarrow>
      CLogger_WithCorrelationId s l c = l \<and>
      CSugaredLogger_WithCorrelationId s sl c = sl \<and>
      CLogger_WithCorrelationId_ctx l c = l \<and>
      CSugaredLogger_WithCorrelationId_ctx sl c = sl)"
  by (cases c)
    (simp_all add: CLogger_WithCorrelationId_def CSugaredLogger_WithCorrelationId_def
      CLogger_WithCorrelationId_ctx_def CSugaredLogger_WithCorrelationId_ctx_def
      fields_of_def sugared_fields_of_def zap_With_def zap_Sugared_With_def Stringp_def box_def)

text \<open>A handle that carries \<open>op\<close>: the nil interface is ignored, a string is attached.\<close>

theorem WithCorrelationId_string_or_noop_witness:
  "(\<forall>x. ANil \<noteq> AString x) \<and>
   CLogger_WithCorrelationId start (CLogger sample_logger) ANil = CLogger sample_logger \<and>
   CSugaredLogger_WithCorrelationId start (CSugaredLogger (Sugar sample_logger)) ANil =
     CSugaredLogger (Sugar sample_logger) \<and>
   CLogger_WithCorrelationId_ctx (CLogger sample_logger) ANil = CLogger sample_logger \<and>
   fields_of (CLogger_WithCorrelationId_ctx (CLogger sample_logger) (AString ''abc-123'')) =
     [(''op'', AString ''checkout''), (''correlation_id'', AString ''abc-123'')]"
  using WithCorrelationId_string_or_noop
    [of start "CLogger sample_logger" "''abc-123''" "CSugaredLogger (Sugar sample_logger)" ANil]
  by (simp add: fields_of_def sample_logger_def)

text \<open>
  C8. A sequence of \<open>With\<close> calls, split anywhere into earlier and later calls. The handle
  after the whole sequence carries, in order, every field of the handle reached after the
  earlier calls, followed by the fields the later calls attach (for the sugared handle, the
  fields its loosely typed arguments yield); the configuration is the receiver's. No
  field is dropped or replaced, a repeated key included: both occurrences stay, and a
  reader that keeps the last occurrence of a key finds the later value exactly when a later
  call attaches that key, and the earlier value otherwise. Handles are values here, so no
  call can change its receiver.
\<close>

theorem With_accumulates:
  "fields_of (foldl CLogger_With l (earlier @ later)) =
     fields_of (foldl CLogger_With l earlier) @ concat later \<and>
   config (zl (foldl CLogger_With l (earlier @ later))) = config (zl l) \<and>
   field_value (fields_of (foldl CLogger_With l (earlier @ later))) k =
     (case field_value (concat later) k of
        Some v \<Rightarrow> Some v
      | None \<Rightarrow> field_value (fields_of (foldl CLogger_With l earlier)) k) \<and>
   sugared_fields_of (foldl CSugaredLogger_With sl (searlier @ slater)) =
     sugared_fields_of (foldl CSugaredLogger_With sl searlier) @
       concat (map sweetenFields slater) \<and>
   field_value (sugared_fields_of (foldl CSugaredLogger_With sl (searlier @ slater))) k =
     (case field_value (concat (map sweetenFields slater)) k of
        Some v \<Rightarrow> Some v
      | None \<Rightarrow> field_value (sugared_fields_of (foldl CSugaredLogger_With sl searlier)) k)"
proof -
  have a: "fields_of (foldl CLogger_With l (earlier @ later)) =
     fields_of (foldl CLogger_With l earlier) @ concat later"
    by (simp add: fields_of_foldl_With)
  have b: "sugared_fields_of (foldl CSugaredLogger_With sl (searlier @ slater)) =
     sugared_fields_of (foldl CSugaredLogger_With sl searlier) @
       concat (map sweetenFields slater)"
    by (simp add: sugared_fields_of_foldl_With)
  show ?thesis
    unfolding a b by (simp add: config_foldl_With field_value_append)
qed

section \<open>Panic recovery helper\<close>




section \<open>Key configuration\<close>

text \<open>
  C10. A call of \<open>Init\<close> made while the handle is nil sets both correlation keys to
  \<open>correlation_id\<close>, whatever \<open>SetCorrelationIdContextKey\<close> and
  \<open>SetCorrelationIdFieldKey\<close> had installed before it (and whether or not the backend then
  builds). After a call of \<open>Init\<close> that returned, keys installed by the two setters stay:
  any later call of \<open>Init\<close> returns at once with the state, keys included, unchanged.
\<close>

theorem Init_resets_keys:
  "(logger s = None \<longrightarrow>
      correlationIdContextKey
        (snd (Init be ctx e d (SetCorrelationIdFieldKey k2 (SetCorrelationIdContextKey k1 s))))
        = ''correlation_id'' \<and>
      correlationIdFieldKey
        (snd (Init be ctx e d (SetCorrelationIdFieldKey k2 (SetCorrelationIdContextKey k1 s))))
        = ''correlation_id'') \<and>
   (Init be ctx e d s = (Returned (), s1) \<longrightarrow>
      Init be2 ctx2 e2 d2 (SetCorrelationIdFieldKey k2 (SetCorrelationIdContextKey k1 s1)) =
        (Returned (), SetCorrelationIdFieldKey k2 (SetCorrelationIdContextKey k1 s1)))"
proof (intro conjI impI)
  assume "logger s = None"
  then have "logger (SetCorrelationIdFieldKey k2 (SetCorrelationIdContextKey k1 s)) = None"
    by simp
  from Init_first_keys [OF this]
  show "correlationIdContextKey
        (snd (Init be ctx e d (SetCorrelationIdFieldKey k2 (SetCorrelationIdContextKey k1 s))))
        = ''correlation_id''"
    and "correlationIdFieldKey
        (snd (Init be ctx e d (SetCorrelationIdFieldKey k2 (SetCorrelationIdContextKey k1 s))))
        = ''correlation_id''"
    by simp_all
next
  assume "Init be ctx e d s = (Returned (), s1)"
  then have "logger s1 \<noteq> None" by (rule Init_Returned_logger)
  then have "logger (SetCorrelationIdFieldKey k2 (SetCorrelationIdContextKey k1 s1)) \<noteq> None"
    by simp
  then show "Init be2 ctx2 e2 d2 (SetCorrelationIdFieldKey k2 (SetCorrelationIdContextKey k1 s1)) =
        (Returned (), SetCorrelationIdFieldKey k2 (SetCorrelationIdContextKey k1 s1))"
    by (simp add: Init_def)
qed

text \<open>
  A run: keys \<open>request_id\<close> and \<open>trace\<close> installed before the first \<open>Init\<close> are gone after
  it; the key \<open>trace\<close> installed after it is still there after a second \<open>Init\<close>.
\<close>

theorem Init_resets_keys_witness:
  "logger start = None \<and>
   correlationIdFieldKey
     (SetCorrelationIdFieldKey ''trace'' (SetCorrelationIdContextKey ''request_id'' start))
     = ''trace'' \<and>
   correlationIdFieldKey
     (snd (Init builds_always Background False False
        (SetCorrelationIdFieldKey ''trace'' (SetCorrelationIdContextKey ''request_id'' start))))
     = ''correlation_id'' \<and>
   correlationIdContextKey
     (snd (Init builds_always Background False False
        (SetCorrelationIdFieldKey ''trace'' (SetCorrelationIdContextKey ''request_id'' start))))
     = ''correlation_id'' \<and>
   fst (Init builds_always Background False False start) = Returned () \<and>
   correlationIdFieldKey
     (snd (Init builds_always Background True True
        (SetCorrelationIdFieldKey ''trace'' (SetCorrelationIdContextKey ''request_id''
           (snd (Init builds_always Background False False start))))))
     = ''trace''"
proof -
  let ?s1 = "snd (Init builds_always Background False False start)"
  have f: "fst (Init builds_always Background False False start) = Returned ()"
    by (simp add: Init_start)
  then have i: "Init builds_always Background False False start = (Returned (), ?s1)"
    by (simp add: prod_eq_iff)
  from logger_start f i
    Init_resets_keys [of start builds_always Background False False "''trace''" "''request_id''"
      ?s1 builds_always Background True True]
  show ?thesis
    by (simp add: SetCorrelationIdFieldKey_def SetCorrelationIdContextKey_def)
qed

text \<open>
  C7. \<open>SetCorrelationIdFieldKey\<close> and \<open>SetCorrelationIdContextKey\<close> ignore the empty string:
  whatever the two keys were, the state is left exactly as it was. Given a non-empty string,
  each replaces its own key with that string and leaves the other key alone.
\<close>

theorem set_key_empty_noop:
  "SetCorrelationIdFieldKey [] s = s \<and>
   SetCorrelationIdContextKey [] s = s \<and>
   (key \<noteq> [] \<longrightarrow>
      correlationIdFieldKey (SetCorrelationIdFieldKey key s) = key \<and>
      correlationIdContextKey (SetCorrelationIdFieldKey key s) = correlationIdContextKey s \<and>
      correlationIdContextKey (SetCorrelationIdContextKey key s) = key \<and>
      correlationIdFieldKey (SetCorrelationIdContextKey key s) = correlationIdFieldKey s)"
  by (simp add: SetCorrelationIdFieldKey_def SetCorrelationIdContextKey_def)

theorem set_key_empty_noop_witness:
  "''request_id'' \<noteq> [] \<and>
   SetCorrelationIdFieldKey [] start = start \<and>
   SetCorrelationIdContextKey [] start = start \<and>
   correlationIdFieldKey (SetCorrelationIdFieldKey ''request_id'' start) = ''request_id'' \<and>
   correlationIdContextKey (SetCorrelationIdContextKey ''request_id'' start) = ''request_id''"
  using set_key_empty_noop [of start "''request_id''"] by simp

end
